theory Spec2Isabelle
  imports Complex_Main "HOL-Library.Word"
begin

section \<open>Go values used by the monitor\<close>

subsection \<open>float64\<close>

text \<open>
  A Go \<^verbatim>\<open>float64\<close> is a finite number, an infinity or NaN. The finite values are
  carried as reals: the rounding of each operation to 53 bits is not modelled, and the
  two zeros are one value. Comparisons follow IEEE 754: every ordered comparison with
  NaN is false, and NaN is not equal to itself.
\<close>

datatype float64 = Fin real | PInf | NInf | NaN

text \<open>Go's \<^verbatim>\<open>a < b\<close>.\<close>

fun flt :: "float64 \<Rightarrow> float64 \<Rightarrow> bool" where
  "flt (Fin x) (Fin y) = (x < y)"
| "flt (Fin x) PInf = True"
| "flt NInf (Fin y) = True"
| "flt NInf PInf = True"
| "flt (Fin x) NInf = False"
| "flt (Fin x) NaN = False"
| "flt PInf b = False"
| "flt NInf NInf = False"
| "flt NInf NaN = False"
| "flt NaN b = False"

text \<open>Go's \<^verbatim>\<open>a > b\<close>.\<close>

definition fgt :: "float64 \<Rightarrow> float64 \<Rightarrow> bool" where
  "fgt a b = flt b a"

text \<open>Go's \<^verbatim>\<open>a == b\<close>.\<close>

fun feq :: "float64 \<Rightarrow> float64 \<Rightarrow> bool" where
  "feq (Fin x) (Fin y) = (x = y)"
| "feq PInf PInf = True"
| "feq NInf NInf = True"
| "feq (Fin x) PInf = False"
| "feq (Fin x) NInf = False"
| "feq (Fin x) NaN = False"
| "feq PInf (Fin y) = False"
| "feq PInf NInf = False"
| "feq PInf NaN = False"
| "feq NInf (Fin y) = False"
| "feq NInf PInf = False"
| "feq NInf NaN = False"
| "feq NaN b = False"

text \<open>Go's \<^verbatim>\<open>a <= b\<close>.\<close>

definition fle :: "float64 \<Rightarrow> float64 \<Rightarrow> bool" where
  "fle a b = (flt a b \<or> feq a b)"

text \<open>The infinity that a non-zero finite value of the given sign overflows to; 0 gives NaN.\<close>

definition inf_of_sign :: "real \<Rightarrow> float64" where
  "inf_of_sign s = (if 0 < s then PInf else if s < 0 then NInf else NaN)"

text \<open>Go's \<^verbatim>\<open>a / b\<close>: no panic on a zero divisor, the result is an infinity or NaN.\<close>

fun fdiv :: "float64 \<Rightarrow> float64 \<Rightarrow> float64" where
  "fdiv (Fin x) (Fin y) = (if y = 0 then inf_of_sign x else Fin (x / y))"
| "fdiv (Fin x) PInf = Fin 0"
| "fdiv (Fin x) NInf = Fin 0"
| "fdiv PInf (Fin y) = (if y < 0 then NInf else PInf)"
| "fdiv NInf (Fin y) = (if y < 0 then PInf else NInf)"
| "fdiv PInf PInf = NaN"
| "fdiv PInf NInf = NaN"
| "fdiv NInf PInf = NaN"
| "fdiv NInf NInf = NaN"
| "fdiv (Fin x) NaN = NaN"
| "fdiv PInf NaN = NaN"
| "fdiv NInf NaN = NaN"
| "fdiv NaN b = NaN"

text \<open>Go's \<^verbatim>\<open>a * b\<close>.\<close>

fun fmul :: "float64 \<Rightarrow> float64 \<Rightarrow> float64" where
  "fmul (Fin x) (Fin y) = Fin (x * y)"
| "fmul (Fin x) PInf = inf_of_sign x"
| "fmul (Fin x) NInf = inf_of_sign (- x)"
| "fmul PInf (Fin y) = inf_of_sign y"
| "fmul NInf (Fin y) = inf_of_sign (- y)"
| "fmul PInf PInf = PInf"
| "fmul NInf NInf = PInf"
| "fmul PInf NInf = NInf"
| "fmul NInf PInf = NInf"
| "fmul (Fin x) NaN = NaN"
| "fmul PInf NaN = NaN"
| "fmul NInf NaN = NaN"
| "fmul NaN b = NaN"

text \<open>The conversion \<^verbatim>\<open>float64(x)\<close> of a \<^verbatim>\<open>uint64\<close>.\<close>

type_synonym uint64 = "64 word"

definition float64_of_uint64 :: "uint64 \<Rightarrow> float64" where
  "float64_of_uint64 w = Fin (real (unat w))"

subsection \<open>Slices\<close>

text \<open>
  A slice is \<^verbatim>\<open>nil\<close> or a sequence of elements; \<^verbatim>\<open>len\<close> of a nil slice is 0 and
  ranging over it visits nothing.
\<close>

type_synonym 'a slice = "'a list option"

definition elems :: "'a slice \<Rightarrow> 'a list" where
  "elems s = (case s of None \<Rightarrow> [] | Some xs \<Rightarrow> xs)"

definition len :: "'a slice \<Rightarrow> nat" where
  "len s = length (elems s)"

section \<open>internal/models/metrics.go\<close>

record CPUStats =
  Overall :: float64
  PerCore :: "float64 slice"

text \<open>The fields Total, Used, Available and Percent of MemoryStats.\<close>

record MemoryStats =
  Mem_Total :: uint64
  Mem_Used :: uint64
  Mem_Available :: uint64
  Mem_Percent :: float64

text \<open>The fields Mountpoint, Total, Used, Available and Percent of DiskStats.\<close>

record DiskStats =
  Mountpoint :: string
  Disk_Total :: uint64
  Disk_Used :: uint64
  Disk_Available :: uint64
  Disk_Percent :: float64

record NetworkStats =
  Interface :: string
  BytesSent :: uint64
  BytesRecv :: uint64
  SendRate :: float64
  RecvRate :: float64

text \<open>A \<^verbatim>\<open>time.Time\<close> is its reading of the monotonic clock, in nanoseconds.\<close>

type_synonym time = int

record Metrics =
  Timestamp :: time
  CPU :: CPUStats
  Memory :: MemoryStats
  Disk :: "DiskStats slice"
  Network :: "NetworkStats slice"

definition CalculatePercentage :: "uint64 \<Rightarrow> uint64 \<Rightarrow> float64" where
  "CalculatePercentage used tot =
     (if tot = 0 then Fin 0
      else fmul (fdiv (float64_of_uint64 used) (float64_of_uint64 tot)) (Fin 100))"

section \<open>internal/collector\<close>

text \<open>
  An \<^verbatim>\<open>error\<close> value: a message, or a message wrapping a cause (\<^verbatim>\<open>fmt.Errorf\<close> with
  \<^verbatim>\<open>%w\<close>). The formatting of values into messages is not modelled.
\<close>

datatype error = Error string | Wrap string error

datatype go_panic = NilPointerDereference

text \<open>
  The interface SystemStatsProvider over a provider state \<open>'p\<close>. Each method returns
  its (value, error) pair as a sum, and the provider's state after the call. The two
  pointer results can be \<^verbatim>\<open>nil\<close> beside a \<^verbatim>\<open>nil\<close> error.
\<close>

record 'p SystemStatsProvider =
  GetCPUStats :: "'p \<Rightarrow> (error + CPUStats option) \<times> 'p"
  GetMemoryStats :: "'p \<Rightarrow> (error + MemoryStats option) \<times> 'p"
  GetDiskStats :: "'p \<Rightarrow> (error + DiskStats slice) \<times> 'p"
  GetNetworkStats :: "'p \<Rightarrow> (error + NetworkStats slice) \<times> 'p"

record 'p Collector =
  provider :: 'p
  prevNet :: "NetworkStats slice"
  prevTime :: time

text \<open>NewCollector: \<open>now\<close> is the reading of \<^verbatim>\<open>time.Now()\<close>.\<close>

definition NewCollector :: "'p \<Rightarrow> time \<Rightarrow> 'p Collector" where
  "NewCollector p now = \<lparr>provider = p, prevNet = None, prevTime = now\<rparr>"

text \<open>
  \<^verbatim>\<open>time.Since(t)\<close> at clock reading \<open>now\<close>: a Duration, an \<^verbatim>\<open>int64\<close> of nanoseconds that
  saturates. \<^verbatim>\<open>Seconds()\<close> converts it to a float64.
\<close>

definition maxDuration :: int where
  "maxDuration = 2 ^ 63 - 1"

definition minDuration :: int where
  "minDuration = - (2 ^ 63)"

definition Since :: "time \<Rightarrow> time \<Rightarrow> int" where
  "Since now t =
     (let d = now - t
      in if maxDuration < d then maxDuration else if d < minDuration then minDuration else d)"

definition Seconds :: "int \<Rightarrow> float64" where
  "Seconds d = Fin (real_of_int d / 1000000000)"

text \<open>The map \<^verbatim>\<open>prevMap\<close>: a later entry of the same interface name replaces an earlier one.\<close>

definition prevMap_of :: "NetworkStats list \<Rightarrow> (string \<rightharpoonup> NetworkStats)" where
  "prevMap_of ps = foldl (\<lambda>m prev. m(Interface prev \<mapsto> prev)) Map.empty ps"

text \<open>The body of the loop over \<^verbatim>\<open>current\<close>: the value stored in \<^verbatim>\<open>result[i]\<close>.\<close>

definition rate_entry :: "(string \<rightharpoonup> NetworkStats) \<Rightarrow> float64 \<Rightarrow> NetworkStats \<Rightarrow> NetworkStats" where
  "rate_entry prevMap timeDelta cur =
     (case prevMap (Interface cur) of
        None \<Rightarrow> cur
      | Some prev \<Rightarrow>
          (let bytesSentDelta = float64_of_uint64 (BytesSent cur - BytesSent prev);
               bytesRecvDelta = float64_of_uint64 (BytesRecv cur - BytesRecv prev);
               r1 = cur\<lparr>SendRate := fdiv bytesSentDelta timeDelta,
                         RecvRate := fdiv bytesRecvDelta timeDelta\<rparr>;
               r2 = (if flt (SendRate r1) (Fin 0) then r1\<lparr>SendRate := Fin 0\<rparr> else r1);
               r3 = (if flt (RecvRate r2) (Fin 0) then r2\<lparr>RecvRate := Fin 0\<rparr> else r2)
           in r3))"

text \<open>calculateNetworkRates: \<open>now\<close> is the clock reading inside \<^verbatim>\<open>time.Since\<close>.\<close>

definition calculateNetworkRates :: "'p Collector \<Rightarrow> time \<Rightarrow> NetworkStats slice \<Rightarrow> NetworkStats slice" where
  "calculateNetworkRates c now current =
     (if prevNet c = None \<or> len (prevNet c) = 0 then current
      else
        (let timeDelta = Seconds (Since now (prevTime c))
         in if feq timeDelta (Fin 0) then current
            else
              (let prevMap = prevMap_of (elems (prevNet c))
               in Some (map (rate_entry prevMap timeDelta) (elems current)))))"

definition zero_CPUStats :: CPUStats where
  "zero_CPUStats = \<lparr>Overall = Fin 0, PerCore = None\<rparr>"

definition zero_MemoryStats :: MemoryStats where
  "zero_MemoryStats = \<lparr>Mem_Total = 0, Mem_Used = 0, Mem_Available = 0, Mem_Percent = Fin 0\<rparr>"

text \<open>
  The method Collect of Collector, on the provider \<open>P\<close>. \<open>ts\<close> is the reading of \<^verbatim>\<open>time.Now()\<close> stored in the
  Timestamp, \<open>now\<close> the later reading inside calculateNetworkRates. The result is a
  panic (dereferencing a \<^verbatim>\<open>nil\<close> result), or the returned pair (metrics, error) and the
  collector after the call. The warnings written to the log are not modelled.
\<close>

definition Collector_Collect ::
  "'p SystemStatsProvider \<Rightarrow> time \<Rightarrow> time \<Rightarrow> 'p Collector \<Rightarrow>
     go_panic + (Metrics \<times> error option) \<times> 'p Collector" where
  "Collector_Collect P ts now c =
     (let m0 = \<lparr>Timestamp = ts, CPU = zero_CPUStats, Memory = zero_MemoryStats,
                 Disk = None, Network = None\<rparr>;
          (cpu, p1) = GetCPUStats P (provider c)
      in case cpu of
           Inr None \<Rightarrow> Inl NilPointerDereference
         | _ \<Rightarrow>
          (let m1 = (case cpu of Inr (Some v) \<Rightarrow> m0\<lparr>CPU := v\<rparr> | _ \<Rightarrow> m0);
               (mem, p2) = GetMemoryStats P p1
           in case mem of
                Inr None \<Rightarrow> Inl NilPointerDereference
              | _ \<Rightarrow>
               (let m2 = (case mem of Inr (Some v) \<Rightarrow> m1\<lparr>Memory := v\<rparr> | _ \<Rightarrow> m1);
                    (disk, p3) = GetDiskStats P p2;
                    m3 = (case disk of Inl err \<Rightarrow> m2 | Inr d \<Rightarrow> m2\<lparr>Disk := d\<rparr>);
                    (net, p4) = GetNetworkStats P p3
                in case net of
                     Inl err \<Rightarrow> Inr ((m3, None), c\<lparr>provider := p4\<rparr>)
                   | Inr n \<Rightarrow>
                      (let n' = (if prevNet c \<noteq> None then calculateNetworkRates c now n else n)
                       in Inr ((m3\<lparr>Network := n'\<rparr>, None),
                               c\<lparr>provider := p4, prevNet := n', prevTime := ts\<rparr>)))))"

section \<open>internal/stats/mock.go\<close>

text \<open>
  MockStatsProvider. Its fields CPUStats, MemStats, DiskStats and NetStats carry the
  prefix \<open>Mock_\<close> here; the two pointers can be \<^verbatim>\<open>nil\<close>.
\<close>

record MockStatsProvider =
  Mock_CPUStats :: "CPUStats option"
  Mock_MemStats :: "MemoryStats option"
  Mock_DiskStats :: "DiskStats slice"
  Mock_NetStats :: "NetworkStats slice"
  CPUError :: "error option"
  MemError :: "error option"
  DiskError :: "error option"
  NetError :: "error option"

definition NewMockStatsProvider :: MockStatsProvider where
  "NewMockStatsProvider =
     \<lparr>Mock_CPUStats = Some \<lparr>Overall = Fin 25.5,
                            PerCore = Some [Fin 20, Fin 30, Fin 25, Fin 28]\<rparr>,
      Mock_MemStats = Some \<lparr>Mem_Total = 16 * 1024 * 1024 * 1024,
                            Mem_Used = 8 * 1024 * 1024 * 1024,
                            Mem_Available = 8 * 1024 * 1024 * 1024,
                            Mem_Percent = Fin 50\<rparr>,
      Mock_DiskStats = Some [\<lparr>Mountpoint = ''/'',
                              Disk_Total = 500 * 1024 * 1024 * 1024,
                              Disk_Used = 300 * 1024 * 1024 * 1024,
                              Disk_Available = 200 * 1024 * 1024 * 1024,
                              Disk_Percent = Fin 60\<rparr>],
      Mock_NetStats = Some [\<lparr>Interface = ''eth0'',
                             BytesSent = 1024 * 1024 * 100,
                             BytesRecv = 1024 * 1024 * 200,
                             SendRate = Fin (1024 * 100),
                             RecvRate = Fin (1024 * 200)\<rparr>],
      CPUError = None, MemError = None, DiskError = None, NetError = None\<rparr>"

definition Mock_GetCPUStats :: "MockStatsProvider \<Rightarrow> error + CPUStats option" where
  "Mock_GetCPUStats m = (case CPUError m of Some e \<Rightarrow> Inl e | None \<Rightarrow> Inr (Mock_CPUStats m))"

definition Mock_GetMemoryStats :: "MockStatsProvider \<Rightarrow> error + MemoryStats option" where
  "Mock_GetMemoryStats m = (case MemError m of Some e \<Rightarrow> Inl e | None \<Rightarrow> Inr (Mock_MemStats m))"

definition Mock_GetDiskStats :: "MockStatsProvider \<Rightarrow> error + DiskStats slice" where
  "Mock_GetDiskStats m = (case DiskError m of Some e \<Rightarrow> Inl e | None \<Rightarrow> Inr (Mock_DiskStats m))"

definition Mock_GetNetworkStats :: "MockStatsProvider \<Rightarrow> error + NetworkStats slice" where
  "Mock_GetNetworkStats m = (case NetError m of Some e \<Rightarrow> Inl e | None \<Rightarrow> Inr (Mock_NetStats m))"

text \<open>The mock as a SystemStatsProvider: no method changes the mock.\<close>

definition MockProvider :: "MockStatsProvider SystemStatsProvider" where
  "MockProvider =
     \<lparr>GetCPUStats = (\<lambda>m. (Mock_GetCPUStats m, m)),
      GetMemoryStats = (\<lambda>m. (Mock_GetMemoryStats m, m)),
      GetDiskStats = (\<lambda>m. (Mock_GetDiskStats m, m)),
      GetNetworkStats = (\<lambda>m. (Mock_GetNetworkStats m, m))\<rparr>"

section \<open>internal/config/config.go\<close>

text \<open>The fields CPU, Memory and Disk of Thresholds carry the prefix \<open>Thr_\<close> here.\<close>

record Thresholds =
  Thr_CPU :: float64
  Thr_Memory :: float64
  Thr_Disk :: float64

text \<open>Interval is a \<^verbatim>\<open>time.Duration\<close>: a signed count of nanoseconds.\<close>

record Config =
  Interval :: int
  JSONMode :: bool
  LogFile :: string
  ConfigFile :: string
  Thresholds :: Thresholds

text \<open>The errors of ValidateConfig, each with the value its message prints.\<close>

datatype config_error =
    IntervalNotPositive int
  | IntervalTooLarge int
  | ThresholdOutOfRange string float64

definition Hour :: int where
  "Hour = 3600000000000"

definition validateThreshold :: "string \<Rightarrow> float64 \<Rightarrow> config_error option" where
  "validateThreshold name v =
     (if flt v (Fin 0) \<or> fgt v (Fin 100) then Some (ThresholdOutOfRange name v) else None)"

definition ValidateConfig :: "Config \<Rightarrow> config_error option" where
  "ValidateConfig config =
     (if Interval config \<le> 0 then Some (IntervalNotPositive (Interval config))
      else if Interval config > 1 * Hour then Some (IntervalTooLarge (Interval config))
      else
        (case validateThreshold ''CPU'' (Thr_CPU (Thresholds config)) of
           Some err \<Rightarrow> Some err
         | None \<Rightarrow>
            (case validateThreshold ''Memory'' (Thr_Memory (Thresholds config)) of
               Some err \<Rightarrow> Some err
             | None \<Rightarrow>
                (case validateThreshold ''Disk'' (Thr_Disk (Thresholds config)) of
                   Some err \<Rightarrow> Some err
                 | None \<Rightarrow> None))))"

section \<open>Strings\<close>

text \<open>
  A string is its sequence of bytes, a text in UTF-8. The white space of
  \<^verbatim>\<open>strings.Fields\<close> and \<^verbatim>\<open>strings.TrimSpace\<close> is that of \<^verbatim>\<open>unicode.IsSpace\<close>: the six
  ASCII characters, U+0085 and U+00A0 (two bytes each), and U+1680, U+2000 to U+200A,
  U+2028, U+2029, U+202F, U+205F and U+3000 (three bytes each). A byte that starts no
  valid encoding decodes to the error rune of width 1, which is not white space.
\<close>

definition asciiSpace :: "char \<Rightarrow> bool" where
  "asciiSpace c = (c = CHR 0x09 \<or> c = CHR 0x0A \<or> c = CHR 0x0B \<or> c = CHR 0x0C \<or>
                   c = CHR 0x0D \<or> c = CHR 0x20)"

definition space2 :: "char \<Rightarrow> char \<Rightarrow> bool" where
  "space2 a b = (a = CHR 0xC2 \<and> (b = CHR 0x85 \<or> b = CHR 0xA0))"

definition space3 :: "char \<Rightarrow> char \<Rightarrow> char \<Rightarrow> bool" where
  "space3 a b c =
     (a = CHR 0xE1 \<and> b = CHR 0x9A \<and> c = CHR 0x80 \<or>
      a = CHR 0xE2 \<and> b = CHR 0x80 \<and>
        (0x80 \<le> (of_char c :: nat) \<and> (of_char c :: nat) \<le> 0x8A \<or>
         c = CHR 0xA8 \<or> c = CHR 0xA9 \<or> c = CHR 0xAF) \<or>
      a = CHR 0xE2 \<and> b = CHR 0x81 \<and> c = CHR 0x9F \<or>
      a = CHR 0xE3 \<and> b = CHR 0x80 \<and> c = CHR 0x80)"

text \<open>
  The width in bytes of the white space rune that the bytes start with, 0 when they
  start with none.
\<close>

fun space_width :: "string \<Rightarrow> nat" where
  "space_width [] = 0"
| "space_width [a] = (if asciiSpace a then 1 else 0)"
| "space_width [a, b] = (if asciiSpace a then 1 else if space2 a b then 2 else 0)"
| "space_width (a # b # c # r) =
     (if asciiSpace a then 1 else if space2 a b then 2 else if space3 a b c then 3 else 0)"

text \<open>
  The same for the rune that the bytes end with; the argument holds the bytes in
  reverse order, last byte first.
\<close>

fun space_width_back :: "string \<Rightarrow> nat" where
  "space_width_back [] = 0"
| "space_width_back [z] = (if asciiSpace z then 1 else 0)"
| "space_width_back [z, y] = (if asciiSpace z then 1 else if space2 y z then 2 else 0)"
| "space_width_back (z # y # x # r) =
     (if asciiSpace z then 1 else if space2 y z then 2 else if space3 x y z then 3 else 0)"

text \<open>
  \<^verbatim>\<open>strings.Fields\<close>: the maximal runs of runes that are not white space. \<open>k\<close> counts
  the bytes of a white space rune that are still to be passed over, \<open>w\<close> is the field
  read so far.
\<close>

fun fields_from :: "nat \<Rightarrow> string \<Rightarrow> string \<Rightarrow> string list" where
  "fields_from k w [] = (if w = [] then [] else [w])"
| "fields_from k w (c # cs) =
     (if 0 < k then fields_from (k - 1) w cs
      else if 0 < space_width (c # cs)
           then (if w = [] then fields_from (space_width (c # cs) - 1) [] cs
                 else w # fields_from (space_width (c # cs) - 1) [] cs)
      else fields_from 0 (w @ [c]) cs)"

definition Fields :: "string \<Rightarrow> string list" where
  "Fields s = fields_from 0 [] s"

text \<open>\<^verbatim>\<open>strings.Split\<close> on a separator of one character.\<close>

fun split_from :: "char \<Rightarrow> string \<Rightarrow> string \<Rightarrow> string list" where
  "split_from sep w [] = [w]"
| "split_from sep w (c # cs) =
     (if c = sep then w # split_from sep [] cs else split_from sep (w @ [c]) cs)"

definition Split :: "string \<Rightarrow> char \<Rightarrow> string list" where
  "Split s sep = split_from sep [] s"

text \<open>
  \<^verbatim>\<open>strings.TrimSpace\<close>: the white space runes at the start are dropped, then those at
  the end of what is left. \<open>drop_spaces\<close> drops them from the front of its argument,
  with the given width function.
\<close>

fun drop_spaces :: "(string \<Rightarrow> nat) \<Rightarrow> nat \<Rightarrow> string \<Rightarrow> string" where
  "drop_spaces width k [] = []"
| "drop_spaces width k (c # cs) =
     (if 0 < k then drop_spaces width (k - 1) cs
      else if 0 < width (c # cs) then drop_spaces width (width (c # cs) - 1) cs
      else c # cs)"

definition TrimSpace :: "string \<Rightarrow> string" where
  "TrimSpace s = rev (drop_spaces space_width_back 0 (rev (drop_spaces space_width 0 s)))"

definition HasPrefix :: "string \<Rightarrow> string \<Rightarrow> bool" where
  "HasPrefix s p = (take (length p) s = p)"

definition TrimSuffix :: "string \<Rightarrow> string \<Rightarrow> string" where
  "TrimSuffix s suf =
     (if length suf \<le> length s \<and> drop (length s - length suf) s = suf
      then take (length s - length suf) s else s)"

text \<open>
  parseUint64 drops the error of \<^verbatim>\<open>strconv.ParseUint(s, 10, 64)\<close>. The digits are read
  from the left: the value is 0 when \<open>s\<close> is empty or a character that is not a decimal
  digit is reached, and the largest \<^verbatim>\<open>uint64\<close> as soon as the next digit makes the
  number too large, whatever follows.
\<close>

definition isDigit :: "char \<Rightarrow> bool" where
  "isDigit c = (48 \<le> (of_char c :: nat) \<and> (of_char c :: nat) \<le> 57)"

definition cutoff :: uint64 where
  "cutoff = 18446744073709551615 div 10 + 1"

definition maxVal :: uint64 where
  "maxVal = 18446744073709551615"

fun parse_digits :: "uint64 \<Rightarrow> string \<Rightarrow> uint64" where
  "parse_digits n [] = n"
| "parse_digits n (c # cs) =
     (if \<not> isDigit c then 0
      else if cutoff \<le> n then maxVal
      else
        (let n10 = n * 10; n1 = n10 + of_nat (of_char c - 48)
         in if n1 < n10 then maxVal else parse_digits n1 cs))"

definition parseUint64 :: "string \<Rightarrow> uint64" where
  "parseUint64 s = (if s = [] then 0 else parse_digits 0 s)"

section \<open>internal/stats/linux.go\<close>

text \<open>
  What a query reads from a file under /proc: the error of \<^verbatim>\<open>os.Open\<close>, or the lines the
  scanner yields and the error \<^verbatim>\<open>scanner.Err()\<close> reports after them.
\<close>

record scanned_file =
  scanned_lines :: "string list"
  scanner_Err :: "error option"

type_synonym proc_file = "error + scanned_file"

text \<open>\<^verbatim>\<open>append(s, x)\<close> on a slice that can be \<^verbatim>\<open>nil\<close>.\<close>

definition append_slice :: "'a slice \<Rightarrow> 'a \<Rightarrow> 'a slice" where
  "append_slice s x = Some (elems s @ [x])"

text \<open>The variables that the loop of GetMemoryStats assigns.\<close>

record meminfo =
  memTotal :: uint64
  memFree :: uint64
  memAvailable :: uint64
  buffers :: uint64
  cached :: uint64

definition meminfo_line :: "meminfo \<Rightarrow> string \<Rightarrow> meminfo" where
  "meminfo_line v line =
     (let fields = Fields line
      in if length fields < 2 then v
         else
           (let key = TrimSuffix (fields ! 0) '':'';
                val = parseUint64 (fields ! 1) * 1024
            in if key = ''MemTotal'' then v\<lparr>memTotal := val\<rparr>
               else if key = ''MemFree'' then v\<lparr>memFree := val\<rparr>
               else if key = ''MemAvailable'' then v\<lparr>memAvailable := val\<rparr>
               else if key = ''Buffers'' then v\<lparr>buffers := val\<rparr>
               else if key = ''Cached'' then v\<lparr>cached := val\<rparr>
               else v))"

definition Linux_GetMemoryStats :: "proc_file \<Rightarrow> error + MemoryStats" where
  "Linux_GetMemoryStats file =
     (case file of
        Inl err \<Rightarrow> Inl (Wrap ''failed to open /proc/meminfo'' err)
      | Inr sc \<Rightarrow>
          (let v = foldl meminfo_line
                     \<lparr>memTotal = 0, memFree = 0, memAvailable = 0, buffers = 0, cached = 0\<rparr>
                     (scanned_lines sc)
           in case scanner_Err sc of
                Some err \<Rightarrow> Inl (Wrap ''error reading /proc/meminfo'' err)
              | None \<Rightarrow>
                  (let available = (if memAvailable v = 0
                                    then memFree v + buffers v + cached v
                                    else memAvailable v);
                       used = memTotal v - available
                   in Inr \<lparr>Mem_Total = memTotal v, Mem_Used = used, Mem_Available = available,
                            Mem_Percent = CalculatePercentage used (memTotal v)\<rparr>)))"

text \<open>
  The fields of \<^verbatim>\<open>syscall.Statfs_t\<close> that GetDiskStats reads; \<open>Bsize\<close> is the value of
  \<^verbatim>\<open>uint64(stat.Bsize)\<close>. \<^verbatim>\<open>syscall.Statfs\<close> is a function from the path to the filled
  structure, \<open>None\<close> when it returns an error.
\<close>

record Statfs_t =
  Blocks :: uint64
  Bfree :: uint64
  Bavail :: uint64
  Bsize :: uint64

definition isSpecialFS :: "string \<Rightarrow> bool" where
  "isSpecialFS fstype =
     (HasPrefix fstype ''tmpfs'' \<or> HasPrefix fstype ''devtmpfs'' \<or>
      HasPrefix fstype ''proc'' \<or> HasPrefix fstype ''sysfs'' \<or>
      HasPrefix fstype ''cgroup'' \<or> HasPrefix fstype ''devpts'')"

text \<open>One turn of the loop of GetDiskStats, on the variables \<open>stats\<close> and \<open>seen\<close>.\<close>

definition mounts_line ::
  "(string \<Rightarrow> Statfs_t option) \<Rightarrow> DiskStats slice \<times> string set \<Rightarrow> string \<Rightarrow>
     DiskStats slice \<times> string set" where
  "mounts_line statfs st line =
     (let stats = fst st; seen = snd st; fields = Fields line
      in if length fields < 3 then (stats, seen)
         else
           (let mountpoint = fields ! 1; fstype = fields ! 2
            in if isSpecialFS fstype then (stats, seen)
               else if mountpoint \<in> seen then (stats, seen)
               else
                 (case statfs mountpoint of
                    None \<Rightarrow> (stats, insert mountpoint seen)
                  | Some stat \<Rightarrow>
                      (let tot = Blocks stat * Bsize stat;
                           available = Bavail stat * Bsize stat;
                           used = tot - (Bfree stat * Bsize stat)
                       in (append_slice stats
                             \<lparr>Mountpoint = mountpoint, Disk_Total = tot, Disk_Used = used,
                              Disk_Available = available,
                              Disk_Percent = CalculatePercentage used tot\<rparr>,
                           insert mountpoint seen)))))"

definition Linux_GetDiskStats ::
  "(string \<Rightarrow> Statfs_t option) \<Rightarrow> proc_file \<Rightarrow> error + DiskStats slice" where
  "Linux_GetDiskStats statfs file =
     (case file of
        Inl err \<Rightarrow> Inl (Wrap ''failed to open /proc/mounts'' err)
      | Inr sc \<Rightarrow>
          (let st = foldl (mounts_line statfs) (None, {}) (scanned_lines sc)
           in case scanner_Err sc of
                Some err \<Rightarrow> Inl (Wrap ''error reading /proc/mounts'' err)
              | None \<Rightarrow> Inr (fst st)))"

text \<open>One turn of the loop of GetNetworkStats, on the variable \<open>stats\<close>.\<close>

definition netdev_line :: "NetworkStats slice \<Rightarrow> string \<Rightarrow> NetworkStats slice" where
  "netdev_line stats line =
     (let parts = Split line CHR '':''
      in if length parts \<noteq> 2 then stats
         else
           (let iface = TrimSpace (parts ! 0); fields = Fields (parts ! 1)
            in if length fields < 9 then stats
               else if iface = ''lo'' then stats
               else append_slice stats
                      \<lparr>Interface = iface, BytesSent = parseUint64 (fields ! 8),
                       BytesRecv = parseUint64 (fields ! 0),
                       SendRate = Fin 0, RecvRate = Fin 0\<rparr>))"

text \<open>The two calls of \<^verbatim>\<open>scanner.Scan()\<close> before the loop skip the two header lines.\<close>

definition Linux_GetNetworkStats :: "proc_file \<Rightarrow> error + NetworkStats slice" where
  "Linux_GetNetworkStats file =
     (case file of
        Inl err \<Rightarrow> Inl (Wrap ''failed to open /proc/net/dev'' err)
      | Inr sc \<Rightarrow>
          (let stats = foldl netdev_line None (drop 2 (scanned_lines sc))
           in case scanner_Err sc of
                Some err \<Rightarrow> Inl (Wrap ''error reading /proc/net/dev'' err)
              | None \<Rightarrow> Inr stats))"

section \<open>Vocabulary of the properties\<close>

text \<open>What a call of Collect returned, when it returned.\<close>

definition returned_metrics :: "go_panic + (Metrics \<times> error option) \<times> 'p Collector \<Rightarrow> Metrics option" where
  "returned_metrics r = (case r of Inl p \<Rightarrow> None | Inr x \<Rightarrow> Some (fst (fst x)))"

definition collector_after :: "go_panic + (Metrics \<times> error option) \<times> 'p Collector \<Rightarrow> 'p Collector option" where
  "collector_after r = (case r of Inl p \<Rightarrow> None | Inr x \<Rightarrow> Some (snd x))"

text \<open>
  The result of the network query of one Collect cycle that starts with the provider in
  state \<open>p\<close>: the fourth call, after the CPU, memory and disk queries.
\<close>

definition network_query :: "'p SystemStatsProvider \<Rightarrow> 'p \<Rightarrow> error + NetworkStats slice" where
  "network_query P p =
     fst (GetNetworkStats P (snd (GetDiskStats P (snd (GetMemoryStats P (snd (GetCPUStats P p)))))))"

text \<open>
  The collectors that have not yet had a successful network query: a freshly
  constructed one, and any collector that such a collector becomes by a Collect cycle
  whose network query fails.
\<close>

inductive no_network_yet :: "'p SystemStatsProvider \<Rightarrow> 'p Collector \<Rightarrow> bool" for P where
  fresh: "no_network_yet P (NewCollector p t0)"
| failed_cycle:
    "no_network_yet P c \<Longrightarrow> Collector_Collect P ts now c = Inr (r, c') \<Longrightarrow>
     network_query P (provider c) = Inl err \<Longrightarrow> no_network_yet P c'"

text \<open>The four subsystems, and a mock whose queries of the subsystems in \<open>S\<close> are forced to fail.\<close>

datatype subsystem = SubCPU | SubMemory | SubDisk | SubNetwork

definition force_failures :: "subsystem set \<Rightarrow> error \<Rightarrow> MockStatsProvider \<Rightarrow> MockStatsProvider" where
  "force_failures S e m =
     m\<lparr>CPUError := (if SubCPU \<in> S then Some e else None),
       MemError := (if SubMemory \<in> S then Some e else None),
       DiskError := (if SubDisk \<in> S then Some e else None),
       NetError := (if SubNetwork \<in> S then Some e else None)\<rparr>"

text \<open>
  The interface names in lines of /proc/net/dev: the trimmed text before the colon of
  every line that has exactly one colon. The names in the whole text are those of the
  lines after the two header lines.
\<close>

definition names_of :: "string list \<Rightarrow> string list" where
  "names_of ls =
     map (\<lambda>l. TrimSpace (Split l CHR '':'' ! 0))
       (filter (\<lambda>l. length (Split l CHR '':'') = 2) ls)"

definition netdev_names :: "string list \<Rightarrow> string list" where
  "netdev_names ls = names_of (drop 2 ls)"

text \<open>A threshold inside the closed range from 0 to 100, by the comparisons of float64.\<close>

definition in_range :: "float64 \<Rightarrow> bool" where
  "in_range v = (fle (Fin 0) v \<and> fle v (Fin 100))"

text \<open>
  The spec's pseudo or virtual filesystems, by filesystem type: the types of the Linux
  kernel that no block device backs (the entries marked nodev in /proc/filesystems).
  The list names the common ones.
\<close>

definition pseudo_fstypes :: "string list" where
  "pseudo_fstypes =
     [''sysfs'', ''tmpfs'', ''bdev'', ''proc'', ''cgroup'', ''cgroup2'', ''cpuset'',
      ''devtmpfs'', ''configfs'', ''debugfs'', ''tracefs'', ''securityfs'', ''sockfs'',
      ''bpf'', ''pipefs'', ''ramfs'', ''hugetlbfs'', ''devpts'', ''mqueue'', ''pstore'',
      ''autofs'', ''binfmt_misc'', ''fusectl'', ''efivarfs'']"

text \<open>
  An entry made from a line that the filter of GetDiskStats keeps: a line of at least
  three fields whose third field starts with none of the six prefixes of the source.
  The invariant of the loop over the lines \<open>L\<close>: every mountpoint in \<open>stats\<close> is in
  \<open>seen\<close>, no mountpoint is in \<open>stats\<close> twice, and every entry of \<open>stats\<close> was made from
  a line that the filter keeps.
\<close>

definition from_kept_line :: "string list \<Rightarrow> DiskStats \<Rightarrow> bool" where
  "from_kept_line L d =
     (\<exists>line \<in> set L. 3 \<le> length (Fields line) \<and> Fields line ! 1 = Mountpoint d \<and>
                      \<not> isSpecialFS (Fields line ! 2))"

definition disk_inv :: "string list \<Rightarrow> DiskStats slice \<times> string set \<Rightarrow> bool" where
  "disk_inv L st =
     (Mountpoint ` set (elems (fst st)) \<subseteq> snd st \<and>
      distinct (map Mountpoint (elems (fst st))) \<and>
      (\<forall>d \<in> set (elems (fst st)). from_kept_line L d))"

section \<open>Properties\<close>

subsection \<open>CalculatePercentage\<close>

lemma float64_of_uint64_div:
  "tot \<noteq> 0 \<Longrightarrow>
   fdiv (float64_of_uint64 used) (float64_of_uint64 tot) = Fin (real (unat used) / real (unat tot))"
proof -
  assume "tot \<noteq> 0"
  then have "unat tot \<noteq> 0" by (simp add: unat_eq_0)
  then have "real (unat tot) \<noteq> 0" by (simp only: of_nat_eq_0_iff not_False_eq_True)
  then show ?thesis
    unfolding float64_of_uint64_def by (simp only: fdiv.simps if_False)
qed

lemma CalculatePercentage_pos:
  "tot \<noteq> 0 \<Longrightarrow>
   CalculatePercentage used tot = Fin (real (unat used) / real (unat tot) * 100)"
proof -
  assume nz: "tot \<noteq> 0"
  have "CalculatePercentage used tot =
        fmul (fdiv (float64_of_uint64 used) (float64_of_uint64 tot)) (Fin 100)"
    using nz by (simp add: CalculatePercentage_def)
  also have "\<dots> = fmul (Fin (real (unat used) / real (unat tot))) (Fin 100)"
    by (simp only: float64_of_uint64_div [OF nz])
  also have "\<dots> = Fin (real (unat used) / real (unat tot) * 100)"
    by (simp only: fmul.simps)
  finally show ?thesis .
qed

text \<open>
  C7. For unsigned \<open>used\<close> and \<open>total\<close>: when \<open>total > 0\<close> and \<open>used \<le> total\<close>,
  \<open>CalculatePercentage used total\<close> is \<open>used / total * 100\<close>, a finite number between 0
  and 100; when \<open>total = 0\<close> it is exactly 0, so it is never NaN or an infinity.
\<close>

theorem CalculatePercentage_law:
  "(0 < tot \<and> used \<le> tot \<longrightarrow>
      CalculatePercentage used tot = Fin (real (unat used) / real (unat tot) * 100) \<and>
      fle (Fin 0) (CalculatePercentage used tot) \<and>
      fle (CalculatePercentage used tot) (Fin 100)) \<and>
   (tot = 0 \<longrightarrow> CalculatePercentage used tot = Fin 0)"
proof (intro conjI impI)
  assume h: "0 < tot \<and> used \<le> tot"
  then have nz: "tot \<noteq> 0" by auto
  define n where "n = unat tot"
  define m where "m = unat used"
  from h have pos: "0 < n" by (simp add: word_less_nat_alt n_def)
  from h have le: "m \<le> n" by (simp add: word_le_nat_alt n_def m_def)
  have eq: "CalculatePercentage used tot = Fin (real m / real n * 100)"
    unfolding n_def m_def using nz by (rule CalculatePercentage_pos)
  then show "CalculatePercentage used tot = Fin (real (unat used) / real (unat tot) * 100)"
    by (simp only: n_def m_def)
  have q0: "0 \<le> real m / real n" by simp
  have q1: "real m / real n \<le> 1" using pos le by simp
  have lo: "0 \<le> real m / real n * 100"
    using q0 by (rule mult_nonneg_nonneg) simp
  have "real m / real n * 100 \<le> 1 * 100"
    using q1 by (rule mult_right_mono) simp
  then have hi: "real m / real n * 100 \<le> 100" by (simp only: mult_1)
  show "fle (Fin 0) (CalculatePercentage used tot)"
    using lo by (auto simp only: eq fle_def flt.simps feq.simps less_le)
  show "fle (CalculatePercentage used tot) (Fin 100)"
    using hi by (auto simp only: eq fle_def flt.simps feq.simps less_le)
next
  assume "tot = 0"
  then show "CalculatePercentage used tot = Fin 0"
    by (simp add: CalculatePercentage_def)
qed

theorem CalculatePercentage_law_witness:
  "(0::uint64) < 8 \<and> (2::uint64) \<le> 8 \<and> CalculatePercentage 2 8 = Fin 25 \<and>
   CalculatePercentage 2 0 = Fin 0"
  using CalculatePercentage_law [of 8 2] CalculatePercentage_law [of 0 2]
  by simp

subsection \<open>calculateNetworkRates\<close>

lemma unat_sub_le: "(b::uint64) \<le> a \<Longrightarrow> unat (a - b) = unat a - unat b"
  by (simp add: unat_sub)

lemma fdiv_Fin_pos:
  "0 < v \<Longrightarrow> fdiv (Fin u) (Fin v) = Fin (u / v)"
  by simp

lemma rate_entry_sent:
  assumes pm: "pm (Interface x) = Some prev" and le: "BytesSent prev \<le> BytesSent x" and d: "0 < d"
  shows "SendRate (rate_entry pm (Seconds d) x) =
         Fin (real (unat (BytesSent x) - unat (BytesSent prev)) / (real_of_int d / 1000000000))"
proof -
  have dpos: "0 < real_of_int d / 1000000000" using d by simp
  define u where "u = real (unat (BytesSent x) - unat (BytesSent prev))"
  have u0: "0 \<le> u" by (simp add: u_def)
  have conv: "float64_of_uint64 (BytesSent x - BytesSent prev) = Fin u"
    unfolding float64_of_uint64_def u_def by (simp only: unat_sub_le [OF le])
  have q: "fdiv (Fin u) (Fin (real_of_int d / 1000000000)) = Fin (u / (real_of_int d / 1000000000))"
    using dpos by (rule fdiv_Fin_pos)
  have nonneg: "\<not> flt (Fin (u / (real_of_int d / 1000000000))) (Fin 0)"
    using u0 dpos by (simp add: not_less)
  show ?thesis
    using pm nonneg q conv
    by (simp add: rate_entry_def Seconds_def Let_def u_def [symmetric])
qed

lemma rate_entry_recv:
  assumes pm: "pm (Interface x) = Some prev" and le: "BytesRecv prev \<le> BytesRecv x" and d: "0 < d"
  shows "RecvRate (rate_entry pm (Seconds d) x) =
         Fin (real (unat (BytesRecv x) - unat (BytesRecv prev)) / (real_of_int d / 1000000000))"
proof -
  have dpos: "0 < real_of_int d / 1000000000" using d by simp
  define u where "u = real (unat (BytesRecv x) - unat (BytesRecv prev))"
  have u0: "0 \<le> u" by (simp add: u_def)
  have conv: "float64_of_uint64 (BytesRecv x - BytesRecv prev) = Fin u"
    unfolding float64_of_uint64_def u_def by (simp only: unat_sub_le [OF le])
  have q: "fdiv (Fin u) (Fin (real_of_int d / 1000000000)) = Fin (u / (real_of_int d / 1000000000))"
    using dpos by (rule fdiv_Fin_pos)
  have nonneg: "\<not> flt (Fin (u / (real_of_int d / 1000000000))) (Fin 0)"
    using u0 dpos by (simp add: not_less)
  show ?thesis
    using pm nonneg q conv
    by (simp add: rate_entry_def Seconds_def Let_def u_def [symmetric])
qed

text \<open>
  When the previous samples have pairwise different interface names, the map holds
  every one of them under its name.
\<close>

lemma prevMap_of_snoc: "prevMap_of (ps @ [x]) = (prevMap_of ps)(Interface x \<mapsto> x)"
  by (simp add: prevMap_of_def)

lemma prevMap_of_distinct:
  "distinct (map Interface ps) \<Longrightarrow> p \<in> set ps \<Longrightarrow> prevMap_of ps (Interface p) = Some p"
proof (induction ps rule: rev_induct)
  case Nil
  then show ?case by simp
next
  case (snoc x xs)
  show ?case
  proof (cases "p = x")
    case True
    then show ?thesis by (simp add: prevMap_of_snoc)
  next
    case False
    with snoc.prems have mem: "p \<in> set xs" by simp
    from snoc.prems have nin: "Interface x \<notin> Interface ` set xs" by simp
    have ne: "Interface p \<noteq> Interface x"
    proof
      assume "Interface p = Interface x"
      then have "Interface x = Interface p" by (rule sym)
      then have "Interface x \<in> Interface ` set xs" using mem by (rule image_eqI)
      with nin show False by (rule notE)
    qed
    from snoc.prems have "distinct (map Interface xs)" by simp
    with snoc.IH mem have "prevMap_of xs (Interface p) = Some p" by simp
    with ne show ?thesis by (simp add: prevMap_of_snoc)
  qed
qed

lemma prevMap_of_Some_nonempty: "prevMap_of ps n = Some p \<Longrightarrow> ps \<noteq> []"
  by (auto simp: prevMap_of_def)

lemma feq_Seconds_0: "feq (Seconds d) (Fin 0) = (d = 0)"
  by (simp add: Seconds_def)

lemma calculateNetworkRates_nth:
  assumes "prevMap_of (elems (prevNet c)) n = Some p" and "Since now (prevTime c) \<noteq> 0" and "i < len current"
  shows "elems (calculateNetworkRates c now current) ! i =
         rate_entry (prevMap_of (elems (prevNet c))) (Seconds (Since now (prevTime c))) (elems current ! i)"
proof -
  from assms(1) have ne: "elems (prevNet c) \<noteq> []" by (rule prevMap_of_Some_nonempty)
  then obtain ps where ps: "prevNet c = Some ps" "ps \<noteq> []"
    by (cases "prevNet c") (auto simp: elems_def)
  from assms(3) have "i < length (elems current)" by (simp add: len_def)
  then show ?thesis
    using assms(2) ps
    by (simp add: calculateNetworkRates_def Let_def feq_Seconds_0 len_def elems_def)
qed

lemma calculateNetworkRates_zero_delta:
  "Since now (prevTime c) = 0 \<Longrightarrow> calculateNetworkRates c now current = current"
  by (simp add: calculateNetworkRates_def Let_def feq_Seconds_0)

text \<open>
  C5 (amended). Let entry \<open>i\<close> of the current samples have an interface that the map of
  the previous samples knows, with previous entry \<open>prev\<close>, and let \<open>d\<close> be the elapsed
  time in nanoseconds. When \<open>d > 0\<close> and the sent counter did not go back, the send rate
  of entry \<open>i\<close> of the result is (b2 - b1) / (d / 10^9), and the same holds for the receive
  rate. When \<open>d = 0\<close>, calculateNetworkRates returns its input unchanged: the rates are
  the ones the input carries, which need not be 0.
\<close>

theorem calculateNetworkRates_rate_law:
  assumes i: "i < len current"
    and pm: "prevMap_of (elems (prevNet c)) (Interface (elems current ! i)) = Some prev"
  shows "(0 < Since now (prevTime c) \<and> BytesSent prev \<le> BytesSent (elems current ! i) \<longrightarrow>
            SendRate (elems (calculateNetworkRates c now current) ! i) =
              Fin (real (unat (BytesSent (elems current ! i)) - unat (BytesSent prev)) /
                   (real_of_int (Since now (prevTime c)) / 1000000000))) \<and>
         (0 < Since now (prevTime c) \<and> BytesRecv prev \<le> BytesRecv (elems current ! i) \<longrightarrow>
            RecvRate (elems (calculateNetworkRates c now current) ! i) =
              Fin (real (unat (BytesRecv (elems current ! i)) - unat (BytesRecv prev)) /
                   (real_of_int (Since now (prevTime c)) / 1000000000))) \<and>
         (Since now (prevTime c) = 0 \<longrightarrow> calculateNetworkRates c now current = current)"
proof (intro conjI impI)
  assume h: "0 < Since now (prevTime c) \<and> BytesSent prev \<le> BytesSent (elems current ! i)"
  then have nz: "Since now (prevTime c) \<noteq> 0" by simp
  show "SendRate (elems (calculateNetworkRates c now current) ! i) =
              Fin (real (unat (BytesSent (elems current ! i)) - unat (BytesSent prev)) /
                   (real_of_int (Since now (prevTime c)) / 1000000000))"
    using h rate_entry_sent [of "prevMap_of (elems (prevNet c))" "elems current ! i" prev "Since now (prevTime c)", OF pm]
    by (simp only: calculateNetworkRates_nth [OF pm nz i])
next
  assume h: "0 < Since now (prevTime c) \<and> BytesRecv prev \<le> BytesRecv (elems current ! i)"
  then have nz: "Since now (prevTime c) \<noteq> 0" by simp
  show "RecvRate (elems (calculateNetworkRates c now current) ! i) =
              Fin (real (unat (BytesRecv (elems current ! i)) - unat (BytesRecv prev)) /
                   (real_of_int (Since now (prevTime c)) / 1000000000))"
    using h rate_entry_recv [of "prevMap_of (elems (prevNet c))" "elems current ! i" prev "Since now (prevTime c)", OF pm]
    by (simp only: calculateNetworkRates_nth [OF pm nz i])
next
  assume "Since now (prevTime c) = 0"
  then show "calculateNetworkRates c now current = current"
    by (rule calculateNetworkRates_zero_delta)
qed

theorem calculateNetworkRates_rate_law_witness:
  "SendRate (elems (calculateNetworkRates
       \<lparr>provider = (), prevNet = Some [\<lparr>Interface = ''eth0'', BytesSent = 1000000, BytesRecv = 500,
                                         SendRate = Fin 0, RecvRate = Fin 0\<rparr>], prevTime = 0\<rparr>
       1000000000
       (Some [\<lparr>Interface = ''eth0'', BytesSent = 1100000, BytesRecv = 700,
                SendRate = Fin 0, RecvRate = Fin 0\<rparr>])) ! 0) = Fin 100000 \<and>
   RecvRate (elems (calculateNetworkRates
       \<lparr>provider = (), prevNet = Some [\<lparr>Interface = ''eth0'', BytesSent = 1000000, BytesRecv = 500,
                                         SendRate = Fin 0, RecvRate = Fin 0\<rparr>], prevTime = 0\<rparr>
       1000000000
       (Some [\<lparr>Interface = ''eth0'', BytesSent = 1100000, BytesRecv = 700,
                SendRate = Fin 0, RecvRate = Fin 0\<rparr>])) ! 0) = Fin 200"
proof -
  let ?prev = "\<lparr>Interface = ''eth0'', BytesSent = 1000000, BytesRecv = 500,
                SendRate = Fin 0, RecvRate = Fin 0\<rparr>"
  let ?c = "\<lparr>provider = (), prevNet = Some [?prev], prevTime = 0\<rparr>"
  let ?cur = "Some [\<lparr>Interface = ''eth0'', BytesSent = 1100000, BytesRecv = 700,
                     SendRate = Fin 0, RecvRate = Fin 0\<rparr>]"
  have i: "0 < len ?cur" by (simp add: len_def elems_def)
  have pm: "prevMap_of (elems (prevNet ?c)) (Interface (elems ?cur ! 0)) = Some ?prev"
    by (simp add: prevMap_of_def elems_def)
  have d: "Since 1000000000 (prevTime ?c) = 1000000000"
    by (simp add: Since_def maxDuration_def minDuration_def)
  have e: "elems ?cur ! 0 = \<lparr>Interface = ''eth0'', BytesSent = 1100000, BytesRecv = 700,
                     SendRate = Fin 0, RecvRate = Fin 0\<rparr>"
    by (simp add: elems_def)
  from calculateNetworkRates_rate_law [OF i pm, of 1000000000]
  show ?thesis unfolding d e by simp
qed

text \<open>
  C5 as stated fails when the elapsed time is 0 and the current samples carry rates:
  the entry of the mock provider keeps its send rate 102400.
\<close>

theorem calculateNetworkRates_zero_delta_counterexample:
  "Since 5 5 = 0 \<and>
   SendRate (elems (calculateNetworkRates
       \<lparr>provider = (), prevNet = Some [\<lparr>Interface = ''eth0'', BytesSent = 104857600,
                                         BytesRecv = 209715200, SendRate = Fin 102400,
                                         RecvRate = Fin 204800\<rparr>], prevTime = 5\<rparr>
       5
       (Some [\<lparr>Interface = ''eth0'', BytesSent = 104857600, BytesRecv = 209715200,
                SendRate = Fin 102400, RecvRate = Fin 204800\<rparr>])) ! 0) \<noteq> Fin 0"
  by (simp add: calculateNetworkRates_def Since_def maxDuration_def minDuration_def
      Seconds_def len_def elems_def Let_def)

text \<open>
  C1. A sent counter that goes back from 100 to 50 over one second: the difference is
  taken in \<^verbatim>\<open>uint64\<close> and wraps to 2^64 - 50, its conversion to float64 is positive, the
  test \<^verbatim>\<open>SendRate < 0\<close> does not fire, and the reported rate is 18446744073709551566
  bytes per second, not 0.
\<close>

theorem calculateNetworkRates_regression_wraps:
  "calculateNetworkRates
     \<lparr>provider = (), prevNet = Some [\<lparr>Interface = ''eth0'', BytesSent = 100, BytesRecv = 100,
                                       SendRate = Fin 0, RecvRate = Fin 0\<rparr>], prevTime = 0\<rparr>
     1000000000
     (Some [\<lparr>Interface = ''eth0'', BytesSent = 50, BytesRecv = 100,
              SendRate = Fin 0, RecvRate = Fin 0\<rparr>])
   = Some [\<lparr>Interface = ''eth0'', BytesSent = 50, BytesRecv = 100,
             SendRate = Fin 18446744073709551566, RecvRate = Fin 0\<rparr>]"
  by (simp add: calculateNetworkRates_def rate_entry_def prevMap_of_def len_def elems_def
      Since_def Seconds_def maxDuration_def minDuration_def float64_of_uint64_def Let_def)

lemma rate_entry_frame:
  "Interface (rate_entry pm dt x) = Interface x \<and> BytesSent (rate_entry pm dt x) = BytesSent x \<and>
   BytesRecv (rate_entry pm dt x) = BytesRecv x"
  by (simp add: rate_entry_def Let_def split: option.splits)

text \<open>
  C10. calculateNetworkRates returns a sequence of the same length as its input whose
  entries have, position by position, the Interface, BytesSent and BytesRecv of the
  input's entries: only SendRate and RecvRate can differ.
\<close>

theorem calculateNetworkRates_frame:
  "len (calculateNetworkRates c now current) = len current \<and>
   map Interface (elems (calculateNetworkRates c now current)) = map Interface (elems current) \<and>
   map BytesSent (elems (calculateNetworkRates c now current)) = map BytesSent (elems current) \<and>
   map BytesRecv (elems (calculateNetworkRates c now current)) = map BytesRecv (elems current)"
  by (simp add: calculateNetworkRates_def Let_def len_def elems_def rate_entry_frame comp_def)

theorem calculateNetworkRates_frame_witness:
  "map Interface (elems (calculateNetworkRates
       \<lparr>provider = (), prevNet = Some [\<lparr>Interface = ''eth0'', BytesSent = 10, BytesRecv = 20,
                                         SendRate = Fin 0, RecvRate = Fin 0\<rparr>], prevTime = 0\<rparr>
       1000000000
       (Some [\<lparr>Interface = ''eth0'', BytesSent = 30, BytesRecv = 50,
                SendRate = Fin 0, RecvRate = Fin 0\<rparr>,
              \<lparr>Interface = ''wlan0'', BytesSent = 1, BytesRecv = 2,
                SendRate = Fin 0, RecvRate = Fin 0\<rparr>]))) = [''eth0'', ''wlan0'']"
  using calculateNetworkRates_frame
    [of "\<lparr>provider = (), prevNet = Some [\<lparr>Interface = ''eth0'', BytesSent = 10, BytesRecv = 20,
                                         SendRate = Fin 0, RecvRate = Fin 0\<rparr>], prevTime = 0\<rparr>"
        1000000000
        "Some [\<lparr>Interface = ''eth0'', BytesSent = 30, BytesRecv = 50,
                SendRate = Fin 0, RecvRate = Fin 0\<rparr>,
              \<lparr>Interface = ''wlan0'', BytesSent = 1, BytesRecv = 2,
                SendRate = Fin 0, RecvRate = Fin 0\<rparr>]"]
  by (simp add: elems_def)


subsection \<open>Collect\<close>

lemma Collect_network_failed:
  assumes "Collector_Collect P ts now c = Inr (r, c')" and "network_query P (provider c) = Inl err"
  shows "prevNet c' = prevNet c \<and> prevTime c' = prevTime c \<and> Network (fst r) = None \<and>
         snd r = None \<and> Timestamp (fst r) = ts"
  using assms
  by (auto simp: Collector_Collect_def network_query_def Let_def
      split: prod.splits sum.splits option.splits if_splits)

lemma Collect_network_ok:
  assumes "Collector_Collect P ts now c = Inr (r, c')" and "network_query P (provider c) = Inr n"
  shows "prevNet c' = Network (fst r) \<and> prevTime c' = ts \<and> Timestamp (fst r) = ts \<and> snd r = None \<and>
         Network (fst r) = (if prevNet c \<noteq> None then calculateNetworkRates c now n else n)"
  using assms
  by (auto simp: Collector_Collect_def network_query_def Let_def
      split: prod.splits sum.splits option.splits if_splits)

lemma Collect_returns:
  assumes "fst (GetCPUStats P (provider c)) \<noteq> Inr None"
    and "fst (GetMemoryStats P (snd (GetCPUStats P (provider c)))) \<noteq> Inr None"
  shows "\<exists>m c'. Collector_Collect P ts now c = Inr ((m, None), c')"
  using assms
  by (auto simp: Collector_Collect_def Let_def split: prod.splits sum.splits option.splits)


lemma calculateNetworkRates_state:
  "prevNet c' = prevNet c \<Longrightarrow> prevTime c' = prevTime c \<Longrightarrow>
   calculateNetworkRates c' now cur = calculateNetworkRates c now cur"
  by (simp add: calculateNetworkRates_def Let_def)

text \<open>
  C6. Collect panics only when the CPU or the memory query returns a \<^verbatim>\<open>nil\<close> pointer
  beside a \<^verbatim>\<open>nil\<close> error; otherwise it returns a snapshot and a \<^verbatim>\<open>nil\<close> error. In a
  cycle that returns, at timestamp \<open>ts\<close>: when the cycle's network query succeeds with
  the sequence \<open>n\<close>, the collector's \<open>prevNet\<close> becomes this cycle's network result
  (\<open>n\<close> itself when there was no previous sample, and \<open>n\<close> with the rates computed by
  calculateNetworkRates otherwise), which is also the network sequence of the snapshot,
  and \<open>prevTime\<close> becomes \<open>ts\<close>, the snapshot's timestamp. When the network query fails,
  \<open>prevNet\<close> and \<open>prevTime\<close> are what they were before the cycle, so every later rate
  computation gives what it would have given without this cycle.
\<close>

theorem Collect_rate_state:
  "(fst (GetCPUStats P (provider c)) \<noteq> Inr None \<and>
    fst (GetMemoryStats P (snd (GetCPUStats P (provider c)))) \<noteq> Inr None \<longrightarrow>
      (\<exists>m c'. Collector_Collect P ts now c = Inr ((m, None), c'))) \<and>
   (\<forall>m e c'. Collector_Collect P ts now c = Inr ((m, e), c') \<longrightarrow>
      (\<forall>n. network_query P (provider c) = Inr n \<longrightarrow>
         prevNet c' = (if prevNet c \<noteq> None then calculateNetworkRates c now n else n) \<and>
         Network m = prevNet c' \<and> prevTime c' = ts \<and> Timestamp m = ts) \<and>
      (\<forall>err. network_query P (provider c) = Inl err \<longrightarrow>
         prevNet c' = prevNet c \<and> prevTime c' = prevTime c \<and>
         (\<forall>now' cur. calculateNetworkRates c' now' cur = calculateNetworkRates c now' cur)))"
proof (intro conjI allI impI)
  assume "fst (GetCPUStats P (provider c)) \<noteq> Inr None \<and>
    fst (GetMemoryStats P (snd (GetCPUStats P (provider c)))) \<noteq> Inr None"
  then show "\<exists>m c'. Collector_Collect P ts now c = Inr ((m, None), c')"
    by (intro Collect_returns) simp_all
next
  fix m e c' n
  assume r: "Collector_Collect P ts now c = Inr ((m, e), c')"
    and n: "network_query P (provider c) = Inr n"
  from Collect_network_ok [OF r n]
  show "prevNet c' = (if prevNet c \<noteq> None then calculateNetworkRates c now n else n)"
    and "Network m = prevNet c'" and "prevTime c' = ts" and "Timestamp m = ts"
    by simp_all
next
  fix m e c' err
  assume r: "Collector_Collect P ts now c = Inr ((m, e), c')"
    and err: "network_query P (provider c) = Inl err"
  from Collect_network_failed [OF r err]
  show same: "prevNet c' = prevNet c" "prevTime c' = prevTime c"
    by simp_all
  fix now' cur
  from same show "calculateNetworkRates c' now' cur = calculateNetworkRates c now' cur"
    by (rule calculateNetworkRates_state)
qed

lemma no_network_yet_prevNet: "no_network_yet P c \<Longrightarrow> prevNet c = None"
proof (induction rule: no_network_yet.induct)
  case (fresh p t0)
  show ?case by (simp add: NewCollector_def)
next
  case (failed_cycle c ts now r c' err)
  from Collect_network_failed [OF failed_cycle.hyps(2,3)] failed_cycle.IH
  show ?case by simp
qed

text \<open>
  C4 (amended). For a collector that has had no successful network query yet (freshly
  constructed, or only failed network queries since), a Collect cycle whose network
  query succeeds puts the sequence returned by the source into the snapshot unchanged:
  SendRate and RecvRate are the values the source reported, 0 exactly when the source
  reports 0.
\<close>

theorem first_network_sample:
  assumes "no_network_yet P c" and "Collector_Collect P ts now c = Inr ((m, e), c')"
    and "network_query P (provider c) = Inr n"
  shows "Network m = n"
  using Collect_network_ok [OF assms(2,3)] no_network_yet_prevNet [OF assms(1)] by simp

text \<open>
  C3 (amended). For every set \<open>S\<close> of subsystems forced to fail on a mock (whose CPU and
  memory values are configured when their queries are to succeed), Collect returns a
  snapshot and a \<^verbatim>\<open>nil\<close> error. Each field in \<open>S\<close> is its zero value. CPU, memory and
  disk outside \<open>S\<close> equal the configured values. Network outside \<open>S\<close> is the configured
  sequence when the collector holds no previous sample, and otherwise the result of
  calculateNetworkRates on the configured sequence.
\<close>

theorem Collect_partial_failure:
  assumes prov: "provider c = force_failures S e m"
    and cpu: "SubCPU \<notin> S \<Longrightarrow> Mock_CPUStats m \<noteq> None"
    and mem: "SubMemory \<notin> S \<Longrightarrow> Mock_MemStats m \<noteq> None"
  shows "\<exists>snap c'. Collector_Collect MockProvider ts now c = Inr ((snap, None), c') \<and>
           (if SubCPU \<in> S then CPU snap = zero_CPUStats else Mock_CPUStats m = Some (CPU snap)) \<and>
           (if SubMemory \<in> S then Memory snap = zero_MemoryStats
            else Mock_MemStats m = Some (Memory snap)) \<and>
           Disk snap = (if SubDisk \<in> S then None else Mock_DiskStats m) \<and>
           Network snap =
             (if SubNetwork \<in> S then None
              else if prevNet c = None then Mock_NetStats m
              else calculateNetworkRates c now (Mock_NetStats m))"
  using cpu mem
  by (auto simp: Collector_Collect_def MockProvider_def Mock_GetCPUStats_def Mock_GetMemoryStats_def
      Mock_GetDiskStats_def Mock_GetNetworkStats_def prov force_failures_def Let_def)


lemma Mock_returns:
  assumes "CPUError m = None \<Longrightarrow> Mock_CPUStats m \<noteq> None"
    and "MemError m = None \<Longrightarrow> Mock_MemStats m \<noteq> None"
    and "provider c = m"
  shows "\<exists>snap c'. Collector_Collect MockProvider ts now c = Inr ((snap, None), c')"
proof (rule Collect_returns)
  show "fst (GetCPUStats MockProvider (provider c)) \<noteq> Inr None"
    using assms(1,3) by (auto simp: MockProvider_def Mock_GetCPUStats_def split: option.splits)
  show "fst (GetMemoryStats MockProvider (snd (GetCPUStats MockProvider (provider c)))) \<noteq> Inr None"
    using assms(2,3) by (auto simp: MockProvider_def Mock_GetMemoryStats_def split: option.splits)
qed

lemma network_query_Mock: "network_query MockProvider m = Mock_GetNetworkStats m"
  by (simp add: network_query_def MockProvider_def)

theorem Collect_partial_failure_witness:
  "\<exists>snap c'. Collector_Collect MockProvider 1 2
       (NewCollector (force_failures {SubCPU} (Error ''no cpu'') NewMockStatsProvider) 0)
       = Inr ((snap, None), c') \<and>
     CPU snap = zero_CPUStats \<and>
     Mock_MemStats NewMockStatsProvider = Some (Memory snap) \<and>
     Disk snap = Mock_DiskStats NewMockStatsProvider \<and>
     Network snap = Mock_NetStats NewMockStatsProvider"
proof -
  let ?c = "NewCollector (force_failures {SubCPU} (Error ''no cpu'') NewMockStatsProvider) 0"
  have p: "provider ?c = force_failures {SubCPU} (Error ''no cpu'') NewMockStatsProvider"
    by (simp add: NewCollector_def)
  have cpu: "SubCPU \<notin> {SubCPU} \<Longrightarrow> Mock_CPUStats NewMockStatsProvider \<noteq> None" by simp
  have mem: "SubMemory \<notin> {SubCPU} \<Longrightarrow> Mock_MemStats NewMockStatsProvider \<noteq> None"
    by (simp add: NewMockStatsProvider_def)
  have pn: "prevNet ?c = None" by (simp add: NewCollector_def)
  from Collect_partial_failure [OF p cpu mem, of 1 2]
  show ?thesis unfolding pn by simp
qed

text \<open>
  C3 as stated fails for a collector that holds a previous sample: with only the CPU
  query failing, the network field has the rates recomputed (0) and differs from the
  configured entry (102400 and 204800).
\<close>

theorem Collect_partial_failure_counterexample:
  "map_option Network (returned_metrics (Collector_Collect MockProvider 1000000000 1000000000
       \<lparr>provider = force_failures {SubCPU} (Error ''no cpu'') NewMockStatsProvider,
        prevNet = Mock_NetStats NewMockStatsProvider, prevTime = 0\<rparr>))
     = Some (Some [\<lparr>Interface = ''eth0'', BytesSent = 104857600, BytesRecv = 209715200,
                     SendRate = Fin 0, RecvRate = Fin 0\<rparr>]) \<and>
   Mock_NetStats NewMockStatsProvider
     = Some [\<lparr>Interface = ''eth0'', BytesSent = 104857600, BytesRecv = 209715200,
               SendRate = Fin 102400, RecvRate = Fin 204800\<rparr>]"
  by (simp add: Collector_Collect_def MockProvider_def Mock_GetCPUStats_def Mock_GetMemoryStats_def
      Mock_GetDiskStats_def Mock_GetNetworkStats_def force_failures_def NewMockStatsProvider_def
      returned_metrics_def calculateNetworkRates_def rate_entry_def prevMap_of_def len_def
      elems_def Since_def Seconds_def maxDuration_def minDuration_def float64_of_uint64_def
      Let_def)

theorem first_network_sample_witness:
  "no_network_yet MockProvider (NewCollector NewMockStatsProvider 0) \<and>
   network_query MockProvider NewMockStatsProvider = Inr (Mock_NetStats NewMockStatsProvider) \<and>
   map_option Network (returned_metrics
       (Collector_Collect MockProvider 1 2 (NewCollector NewMockStatsProvider 0)))
     = Some (Mock_NetStats NewMockStatsProvider)"
proof -
  let ?c = "NewCollector NewMockStatsProvider 0"
  have p: "provider ?c = NewMockStatsProvider" by (simp add: NewCollector_def)
  have fr: "no_network_yet MockProvider ?c" by (rule no_network_yet.fresh)
  have nq: "network_query MockProvider (provider ?c) = Inr (Mock_NetStats NewMockStatsProvider)"
    unfolding p by (simp add: network_query_Mock Mock_GetNetworkStats_def NewMockStatsProvider_def)
  obtain snap c' where r: "Collector_Collect MockProvider 1 2 ?c = Inr ((snap, None), c')"
    using Mock_returns [OF _ _ p, of 1 2] by (auto simp: NewMockStatsProvider_def)
  from first_network_sample [OF fr r nq]
  have "Network snap = Mock_NetStats NewMockStatsProvider" .
  then show ?thesis using fr nq unfolding p by (simp add: r returned_metrics_def)
qed

text \<open>
  C4 as stated fails on the mock's default data: the first snapshot of a fresh
  collector carries the configured rates 102400 and 204800.
\<close>

theorem first_network_sample_counterexample:
  "map_option Network (returned_metrics
       (Collector_Collect MockProvider 1 2 (NewCollector NewMockStatsProvider 0)))
     = Some (Some [\<lparr>Interface = ''eth0'', BytesSent = 104857600, BytesRecv = 209715200,
                     SendRate = Fin 102400, RecvRate = Fin 204800\<rparr>])"
  by (simp add: Collector_Collect_def MockProvider_def Mock_GetCPUStats_def Mock_GetMemoryStats_def
      Mock_GetDiskStats_def Mock_GetNetworkStats_def NewMockStatsProvider_def NewCollector_def
      returned_metrics_def Let_def)

theorem Collect_rate_state_witness:
  "map_option prevNet (collector_after
       (Collector_Collect MockProvider 1000000000 1000000000
          \<lparr>provider = NewMockStatsProvider
             \<lparr>Mock_NetStats := Some [\<lparr>Interface = ''eth0'', BytesSent = 1100000, BytesRecv = 700,
                                        SendRate = Fin 0, RecvRate = Fin 0\<rparr>]\<rparr>,
           prevNet = Some [\<lparr>Interface = ''eth0'', BytesSent = 1000000, BytesRecv = 500,
                             SendRate = Fin 0, RecvRate = Fin 0\<rparr>],
           prevTime = 0\<rparr>))
     = Some (Some [\<lparr>Interface = ''eth0'', BytesSent = 1100000, BytesRecv = 700,
                     SendRate = Fin 100000, RecvRate = Fin 200\<rparr>]) \<and>
   map_option prevTime (collector_after
       (Collector_Collect MockProvider 1000000000 1000000000
          \<lparr>provider = NewMockStatsProvider
             \<lparr>Mock_NetStats := Some [\<lparr>Interface = ''eth0'', BytesSent = 1100000, BytesRecv = 700,
                                        SendRate = Fin 0, RecvRate = Fin 0\<rparr>]\<rparr>,
           prevNet = Some [\<lparr>Interface = ''eth0'', BytesSent = 1000000, BytesRecv = 500,
                             SendRate = Fin 0, RecvRate = Fin 0\<rparr>],
           prevTime = 0\<rparr>))
     = Some 1000000000 \<and>
   map_option prevNet (collector_after
       (Collector_Collect MockProvider 7 8
          \<lparr>provider = force_failures {SubNetwork} (Error ''down'') NewMockStatsProvider,
           prevNet = Some [\<lparr>Interface = ''eth0'', BytesSent = 1000000, BytesRecv = 500,
                             SendRate = Fin 0, RecvRate = Fin 0\<rparr>],
           prevTime = 3\<rparr>))
     = Some (Some [\<lparr>Interface = ''eth0'', BytesSent = 1000000, BytesRecv = 500,
                     SendRate = Fin 0, RecvRate = Fin 0\<rparr>]) \<and>
   map_option prevTime (collector_after
       (Collector_Collect MockProvider 7 8
          \<lparr>provider = force_failures {SubNetwork} (Error ''down'') NewMockStatsProvider,
           prevNet = Some [\<lparr>Interface = ''eth0'', BytesSent = 1000000, BytesRecv = 500,
                             SendRate = Fin 0, RecvRate = Fin 0\<rparr>],
           prevTime = 3\<rparr>))
     = Some 3"
proof -
  let ?prev = "\<lparr>Interface = ''eth0'', BytesSent = 1000000, BytesRecv = 500,
                SendRate = Fin 0, RecvRate = Fin 0\<rparr>"
  let ?cur = "\<lparr>Interface = ''eth0'', BytesSent = 1100000, BytesRecv = 700,
               SendRate = Fin 0, RecvRate = Fin 0\<rparr>"
  let ?m1 = "NewMockStatsProvider\<lparr>Mock_NetStats := Some [?cur]\<rparr>"
  let ?c = "\<lparr>provider = ?m1, prevNet = Some [?prev], prevTime = 0\<rparr>"
  let ?m2 = "force_failures {SubNetwork} (Error ''down'') NewMockStatsProvider"
  let ?d = "\<lparr>provider = ?m2, prevNet = Some [?prev], prevTime = 3\<rparr>"
  have p: "provider ?c = ?m1" by simp
  obtain snap c' where
    r: "Collector_Collect MockProvider 1000000000 1000000000 ?c = Inr ((snap, None), c')"
    using Mock_returns [OF _ _ p, of 1000000000 1000000000]
    by (auto simp: NewMockStatsProvider_def)
  have nq: "network_query MockProvider (provider ?c) = Inr (Some [?cur])"
    by (simp add: network_query_Mock Mock_GetNetworkStats_def NewMockStatsProvider_def)
  have rates: "calculateNetworkRates ?c 1000000000 (Some [?cur]) =
      Some [\<lparr>Interface = ''eth0'', BytesSent = 1100000, BytesRecv = 700,
              SendRate = Fin 100000, RecvRate = Fin 200\<rparr>]"
    by (simp add: calculateNetworkRates_def rate_entry_def prevMap_of_def len_def elems_def
        Since_def Seconds_def maxDuration_def minDuration_def float64_of_uint64_def Let_def)
  have q: "provider ?d = ?m2" by simp
  obtain snap2 d' where r2: "Collector_Collect MockProvider 7 8 ?d = Inr ((snap2, None), d')"
    using Mock_returns [OF _ _ q, of 7 8]
    by (auto simp: NewMockStatsProvider_def force_failures_def)
  have nq2: "network_query MockProvider (provider ?d) = Inl (Error ''down'')"
    by (simp add: network_query_Mock Mock_GetNetworkStats_def force_failures_def)
  from conjunct2 [OF Collect_rate_state, rule_format, OF r] nq
  have "prevNet c' = calculateNetworkRates ?c 1000000000 (Some [?cur]) \<and> prevTime c' = 1000000000"
    by simp
  then have a: "prevNet c' = Some [\<lparr>Interface = ''eth0'', BytesSent = 1100000, BytesRecv = 700,
              SendRate = Fin 100000, RecvRate = Fin 200\<rparr>] \<and> prevTime c' = 1000000000"
    unfolding rates .
  from conjunct2 [OF Collect_rate_state, rule_format, OF r2] nq2
  have b: "prevNet d' = Some [?prev] \<and> prevTime d' = 3" by simp
  show ?thesis using a b by (simp add: r r2 collector_after_def)
qed

subsection \<open>ValidateConfig\<close>

lemma validateThreshold_None: "validateThreshold name v = None \<longleftrightarrow> (v = NaN \<or> in_range v)"
  by (cases v) (auto simp: validateThreshold_def in_range_def fle_def fgt_def)

lemma first_error_None:
  "(case x of Some err \<Rightarrow> Some err | None \<Rightarrow> y) = None \<longleftrightarrow> x = None \<and> y = None"
  by (cases x) simp_all

lemma ValidateConfig_None_iff:
  "ValidateConfig c = None \<longleftrightarrow>
     (0 < Interval c \<and> Interval c \<le> Hour \<and>
      (Thr_CPU (Thresholds c) = NaN \<or> in_range (Thr_CPU (Thresholds c))) \<and>
      (Thr_Memory (Thresholds c) = NaN \<or> in_range (Thr_Memory (Thresholds c))) \<and>
      (Thr_Disk (Thresholds c) = NaN \<or> in_range (Thr_Disk (Thresholds c))))"
  by (simp add: ValidateConfig_def first_error_None validateThreshold_None Hour_def not_le not_less)

text \<open>
  C9. ValidateConfig is to return an error exactly for the invalid configurations, and
  a threshold outside the range from 0 to 100 makes a configuration invalid. A NaN
  threshold is outside the range, and both comparisons of validateThreshold are false
  for it: the configuration with the default interval and thresholds and a NaN CPU
  threshold is accepted.
\<close>

theorem ValidateConfig_accepts_NaN:
  "ValidateConfig \<lparr>Interval = 1000000000, JSONMode = False, LogFile = '''', ConfigFile = '''',
     Thresholds = \<lparr>Thr_CPU = NaN, Thr_Memory = Fin 85, Thr_Disk = Fin 90\<rparr>\<rparr> = None \<and>
   \<not> in_range NaN"
  by (simp add: ValidateConfig_def validateThreshold_def fgt_def fle_def Hour_def in_range_def)

subsection \<open>The Linux stats source\<close>

lemma Linux_GetMemoryStats_invariant:
  assumes "Linux_GetMemoryStats file = Inr m"
  shows "Mem_Total m = Mem_Used m + Mem_Available m"
proof (cases "file")
  case (Inl err)
  with assms show ?thesis by (simp add: Linux_GetMemoryStats_def)
next
  case (Inr sc)
  show ?thesis
  proof (cases "scanner_Err sc")
    case (Some err)
    with assms Inr show ?thesis by (simp add: Linux_GetMemoryStats_def Let_def)
  next
    case None
    define v where "v = foldl meminfo_line
        \<lparr>memTotal = 0, memFree = 0, memAvailable = 0, buffers = 0, cached = 0\<rparr>
        (scanned_lines sc)"
    define a where "a = (if memAvailable v = 0 then memFree v + buffers v + cached v
                         else memAvailable v)"
    have "Linux_GetMemoryStats (Inr sc) =
          Inr \<lparr>Mem_Total = memTotal v, Mem_Used = memTotal v - a, Mem_Available = a,
                Mem_Percent = CalculatePercentage (memTotal v - a) (memTotal v)\<rparr>"
      by (simp add: Linux_GetMemoryStats_def Let_def None v_def a_def)
    with assms Inr
    have "m = \<lparr>Mem_Total = memTotal v, Mem_Used = memTotal v - a, Mem_Available = a,
                Mem_Percent = CalculatePercentage (memTotal v - a) (memTotal v)\<rparr>"
      by simp
    then show ?thesis by simp
  qed
qed

text \<open>
  C2. The memory statistics satisfy \<open>total = used + available\<close> (the lemma above). The
  disk statistics do not: \<open>used\<close> is computed from the free blocks and \<open>available\<close> from
  the blocks available to unprivileged users. For a filesystem of 100 blocks of 4096
  bytes with 20 free and 10 available, the entry has total 409600, used 327680 and
  available 40960.
\<close>

theorem Linux_GetDiskStats_total_mismatch:
  "Linux_GetDiskStats
     (\<lambda>path. if path = ''/'' then Some \<lparr>Blocks = 100, Bfree = 20, Bavail = 10, Bsize = 4096\<rparr>
              else None)
     (Inr \<lparr>scanned_lines = [''/dev/sda1 / ext4 rw 0 0''], scanner_Err = None\<rparr>)
   = Inr (Some [\<lparr>Mountpoint = ''/'', Disk_Total = 409600, Disk_Used = 327680,
                  Disk_Available = 40960, Disk_Percent = Fin 80\<rparr>]) \<and>
   (409600 :: uint64) \<noteq> 327680 + 40960"
  by (simp add: Linux_GetDiskStats_def mounts_line_def Fields_def asciiSpace_def space2_def
      space3_def isSpecialFS_def HasPrefix_def append_slice_def elems_def
      CalculatePercentage_def float64_of_uint64_def Let_def)

lemma elems_append_slice: "elems (append_slice s x) = elems s @ [x]"
  by (simp add: append_slice_def elems_def)

lemma from_kept_line_intro:
  "line \<in> set L \<Longrightarrow> 3 \<le> length (Fields line) \<Longrightarrow> \<not> isSpecialFS (Fields line ! 2) \<Longrightarrow>
   Mountpoint d = Fields line ! 1 \<Longrightarrow> from_kept_line L d"
  unfolding from_kept_line_def by (rule bexI [of _ line]) simp_all

lemma disk_inv_step:
  assumes inv: "disk_inv L st" and mem: "line \<in> set L"
  shows "disk_inv L (mounts_line statfs st line)"
proof (cases "length (Fields line) < 3 \<or> isSpecialFS (Fields line ! 2) \<or> Fields line ! 1 \<in> snd st")
  case True
  then have "mounts_line statfs st line = st"
    by (auto simp: mounts_line_def Let_def)
  then show ?thesis using inv by simp
next
  case False
  then have len: "3 \<le> length (Fields line)" and reg: "\<not> isSpecialFS (Fields line ! 2)"
    and new: "Fields line ! 1 \<notin> snd st" by auto
  show ?thesis
  proof (cases "statfs (Fields line ! 1)")
    case None
    then have "mounts_line statfs st line = (fst st, insert (Fields line ! 1) (snd st))"
      using False by (simp add: mounts_line_def Let_def)
    then show ?thesis using inv by (auto simp: disk_inv_def)
  next
    case (Some stat)
    then obtain d where d: "mounts_line statfs st line =
        (append_slice (fst st) d, insert (Fields line ! 1) (snd st))"
      and md: "Mountpoint d = Fields line ! 1"
      using False by (simp add: mounts_line_def Let_def)
    have fresh: "Fields line ! 1 \<notin> Mountpoint ` set (elems (fst st))"
      using inv new by (auto simp: disk_inv_def)
    have reg_d: "from_kept_line L d"
      using mem len reg md by (rule from_kept_line_intro)
    show ?thesis
      unfolding d disk_inv_def using inv fresh reg_d md
      by (auto simp: elems_append_slice disk_inv_def)
  qed
qed

lemma disk_inv_foldl:
  "disk_inv L st \<Longrightarrow> set ls \<subseteq> set L \<Longrightarrow> disk_inv L (foldl (mounts_line statfs) st ls)"
proof (induction ls arbitrary: st)
  case Nil
  then show ?case by simp
next
  case (Cons l ls)
  from Cons.prems have "disk_inv L (mounts_line statfs st l)"
    by (auto intro: disk_inv_step)
  with Cons show ?case by simp
qed

lemma disk_inv_init: "disk_inv L (None, {})"
  by (simp add: disk_inv_def elems_def)

lemma Linux_GetDiskStats_inv:
  assumes "Linux_GetDiskStats statfs (Inr sc) = Inr disks"
  shows "disk_inv (scanned_lines sc) (disks, snd (foldl (mounts_line statfs) (None, {}) (scanned_lines sc)))"
proof -
  have "disk_inv (scanned_lines sc) (foldl (mounts_line statfs) (None, {}) (scanned_lines sc))"
    by (rule disk_inv_foldl [OF disk_inv_init]) simp
  moreover have "disks = fst (foldl (mounts_line statfs) (None, {}) (scanned_lines sc))"
    using assms by (auto simp: Linux_GetDiskStats_def Let_def split: option.splits)
  ultimately show ?thesis by simp
qed

lemma netdev_line_cases:
  "netdev_line stats line = stats \<or>
   (\<exists>e. netdev_line stats line = append_slice stats e \<and> length (Split line CHR '':'') = 2 \<and>
        Interface e = TrimSpace (Split line CHR '':'' ! 0) \<and> Interface e \<noteq> ''lo'' \<and>
        SendRate e = Fin 0 \<and> RecvRate e = Fin 0)"
proof (cases "length (Split line CHR '':'') \<noteq> 2 \<or> length (Fields (Split line CHR '':'' ! 1)) < 9 \<or>
              TrimSpace (Split line CHR '':'' ! 0) = ''lo''")
  case True
  then have "netdev_line stats line = stats"
    by (auto simp: netdev_line_def Let_def)
  then show ?thesis by simp
next
  case False
  let ?e = "\<lparr>Interface = TrimSpace (Split line CHR '':'' ! 0),
             BytesSent = parseUint64 (Fields (Split line CHR '':'' ! 1) ! 8),
             BytesRecv = parseUint64 (Fields (Split line CHR '':'' ! 1) ! 0),
             SendRate = Fin 0, RecvRate = Fin 0\<rparr>"
  from False have "netdev_line stats line = append_slice stats ?e"
    by (simp add: netdev_line_def Let_def)
  with False show ?thesis by (intro disjI2 exI [of _ ?e]) simp
qed

lemma names_of_Cons:
  "names_of (l # ls) =
     (if length (Split l CHR '':'') = 2 then TrimSpace (Split l CHR '':'' ! 0) # names_of ls
      else names_of ls)"
  by (simp add: names_of_def)

lemma distinct_drop_middle: "distinct (xs @ a # ys) \<Longrightarrow> distinct (xs @ ys)"
  by auto

lemma netdev_foldl_avoid:
  assumes n: "n = ''lo''"
  shows "n \<notin> Interface ` set (elems stats) \<Longrightarrow>
         n \<notin> Interface ` set (elems (foldl netdev_line stats ls))"
proof (induction ls arbitrary: stats)
  case Nil
  then show ?case unfolding foldl_Nil .
next
  case (Cons l ls)
  have "n \<notin> Interface ` set (elems (netdev_line stats l))"
    using netdev_line_cases [of stats l]
  proof (elim disjE exE conjE)
    assume same: "netdev_line stats l = stats"
    show ?thesis unfolding same by (rule Cons.prems)
  next
    fix e
    assume e: "netdev_line stats l = append_slice stats e" and lo: "Interface e \<noteq> ''lo''"
    from lo have ne: "Interface e \<noteq> n" unfolding n .
    have img: "Interface ` set (elems (append_slice stats e)) =
          insert (Interface e) (Interface ` set (elems stats))"
      by (simp add: elems_append_slice)
    from ne Cons.prems show ?thesis unfolding e img by blast
  qed
  then show ?case unfolding foldl_Cons by (rule Cons.IH)
qed

lemma netdev_foldl_distinct:
  "distinct (map Interface (elems stats) @ names_of ls) \<Longrightarrow>
   distinct (map Interface (elems (foldl netdev_line stats ls)))"
proof (induction ls arbitrary: stats)
  case Nil
  then show ?case by (simp add: names_of_def)
next
  case (Cons l ls)
  have "distinct (map Interface (elems (netdev_line stats l)) @ names_of ls)"
    using netdev_line_cases [of stats l]
  proof
    assume same: "netdev_line stats l = stats"
    show ?thesis
    proof (cases "length (Split l CHR '':'') = 2")
      case True
      with Cons.prems
      have "distinct (map Interface (elems stats) @ TrimSpace (Split l CHR '':'' ! 0) # names_of ls)"
        by (simp add: names_of_Cons)
      then show ?thesis unfolding same by (rule distinct_drop_middle)
    next
      case False
      with Cons.prems show ?thesis
        unfolding same by (simp add: names_of_Cons)
    qed
  next
    assume "\<exists>e. netdev_line stats l = append_slice stats e \<and> length (Split l CHR '':'') = 2 \<and>
        Interface e = TrimSpace (Split l CHR '':'' ! 0) \<and> Interface e \<noteq> ''lo'' \<and>
        SendRate e = Fin 0 \<and> RecvRate e = Fin 0"
    then obtain e where e: "netdev_line stats l = append_slice stats e"
      and two: "length (Split l CHR '':'') = 2"
      and nm: "Interface e = TrimSpace (Split l CHR '':'' ! 0)" by blast
    have "map Interface (elems (append_slice stats e)) @ names_of ls =
          map Interface (elems stats) @ names_of (l # ls)"
      by (simp add: elems_append_slice names_of_Cons two nm)
    with Cons.prems show ?thesis unfolding e by (simp only:)
  qed
  then show ?case unfolding foldl_Cons by (rule Cons.IH)
qed

lemma netdev_foldl_rates:
  "\<forall>e \<in> set (elems stats). SendRate e = Fin 0 \<and> RecvRate e = Fin 0 \<Longrightarrow>
   \<forall>e \<in> set (elems (foldl netdev_line stats ls)). SendRate e = Fin 0 \<and> RecvRate e = Fin 0"
proof (induction ls arbitrary: stats)
  case Nil
  then show ?case unfolding foldl_Nil .
next
  case (Cons l ls)
  have "\<forall>e \<in> set (elems (netdev_line stats l)). SendRate e = Fin 0 \<and> RecvRate e = Fin 0"
    using netdev_line_cases [of stats l]
  proof (elim disjE exE conjE)
    assume same: "netdev_line stats l = stats"
    show ?thesis unfolding same by (rule Cons.prems)
  next
    fix e
    assume e: "netdev_line stats l = append_slice stats e"
      and r: "SendRate e = Fin 0" "RecvRate e = Fin 0"
    have st: "set (elems (append_slice stats e)) = insert e (set (elems stats))"
      by (simp add: elems_append_slice)
    from r Cons.prems show ?thesis unfolding e st by blast
  qed
  then show ?case unfolding foldl_Cons by (rule Cons.IH)
qed

lemma Linux_GetNetworkStats_result:
  "Linux_GetNetworkStats (Inr sc) = Inr nets \<Longrightarrow>
   nets = foldl netdev_line None (drop 2 (scanned_lines sc))"
  by (auto simp: Linux_GetNetworkStats_def Let_def split: option.splits)

text \<open>
  What the two enumerations do guarantee. The sequence of a successful GetDiskStats has
  no two entries with the same mountpoint, and every entry was made from a line that
  the filter keeps. The sequence of a successful GetNetworkStats has no entry named
  \<open>lo\<close>, and no two entries with the same name when the trimmed names in the lines of
  /proc/net/dev are pairwise different: GetNetworkStats removes no duplicates itself.
\<close>

lemma Linux_enumeration_kept:
  assumes disk: "Linux_GetDiskStats statfs (Inr mounts) = Inr disks"
    and net: "Linux_GetNetworkStats (Inr netdev) = Inr nets"
  shows "distinct (map Mountpoint (elems disks)) \<and>
         (\<forall>d \<in> set (elems disks). from_kept_line (scanned_lines mounts) d) \<and>
         ''lo'' \<notin> Interface ` set (elems nets) \<and>
         (distinct (netdev_names (scanned_lines netdev)) \<longrightarrow> distinct (map Interface (elems nets)))"
proof (intro conjI impI)
  from Linux_GetDiskStats_inv [OF disk]
  show "distinct (map Mountpoint (elems disks))"
    and "\<forall>d \<in> set (elems disks). from_kept_line (scanned_lines mounts) d"
    by (simp_all add: disk_inv_def)
  have n: "nets = foldl netdev_line None (drop 2 (scanned_lines netdev))"
    using net by (rule Linux_GetNetworkStats_result)
  show "''lo'' \<notin> Interface ` set (elems nets)"
    unfolding n by (rule netdev_foldl_avoid [OF refl]) (simp add: elems_def)
  assume "distinct (netdev_names (scanned_lines netdev))"
  then have "distinct (map Interface (elems None) @ names_of (drop 2 (scanned_lines netdev)))"
    by (simp add: netdev_names_def elems_def)
  then show "distinct (map Interface (elems nets))"
    unfolding n by (rule netdev_foldl_distinct)
qed

text \<open>
  C8. A line of /proc/mounts for debugfs, a pseudo filesystem: its type starts with
  none of the six prefixes that GetDiskStats skips, so the sequence returned has an
  entry for its mountpoint.
\<close>

theorem Linux_GetDiskStats_returns_debugfs:
  "Linux_GetDiskStats
     (\<lambda>path. if path = ''/sys/kernel/debug''
              then Some \<lparr>Blocks = 0, Bfree = 0, Bavail = 0, Bsize = 4096\<rparr> else None)
     (Inr \<lparr>scanned_lines = [''debugfs /sys/kernel/debug debugfs rw,relatime 0 0''],
           scanner_Err = None\<rparr>)
   = Inr (Some [\<lparr>Mountpoint = ''/sys/kernel/debug'', Disk_Total = 0, Disk_Used = 0,
                  Disk_Available = 0, Disk_Percent = Fin 0\<rparr>]) \<and>
   ''debugfs'' \<in> set pseudo_fstypes"
  by (simp add: Linux_GetDiskStats_def mounts_line_def Fields_def asciiSpace_def space2_def
      space3_def isSpecialFS_def HasPrefix_def append_slice_def elems_def
      CalculatePercentage_def pseudo_fstypes_def Let_def)

text \<open>
  Two interfaces whose names differ only by a trailing U+0085, which TrimSpace drops:
  both entries of the result are named \<open>eth0\<close>.
\<close>

lemma Linux_GetNetworkStats_names_collide:
  "Linux_GetNetworkStats
     (Inr \<lparr>scanned_lines = [''Inter-|'', '' face |'', ''  eth0: 1 0 0 0 0 0 0 0 2 0'',
                             ''eth0'' @ [CHR 0xC2, CHR 0x85] @ '': 3 0 0 0 0 0 0 0 4 0''],
           scanner_Err = None\<rparr>)
   = Inr (Some [\<lparr>Interface = ''eth0'', BytesSent = 2, BytesRecv = 1,
                  SendRate = Fin 0, RecvRate = Fin 0\<rparr>,
                \<lparr>Interface = ''eth0'', BytesSent = 4, BytesRecv = 3,
                  SendRate = Fin 0, RecvRate = Fin 0\<rparr>])"
  by (simp add: Linux_GetNetworkStats_def netdev_line_def Split_def TrimSpace_def Fields_def
      asciiSpace_def space2_def space3_def parseUint64_def isDigit_def cutoff_def maxVal_def
      word_le_nat_alt word_less_nat_alt append_slice_def elems_def Let_def)

text \<open>
  The entries of GetNetworkStats carry the rates 0: the collector computes the rates.
\<close>

lemma Linux_GetNetworkStats_rates:
  assumes "Linux_GetNetworkStats (Inr sc) = Inr nets"
  shows "\<forall>e \<in> set (elems nets). SendRate e = Fin 0 \<and> RecvRate e = Fin 0"
  unfolding Linux_GetNetworkStats_result [OF assms]
  by (rule netdev_foldl_rates) (simp add: elems_def)

end
